theory Spec2Isabelle
  imports Complex_Main
begin

section \<open>JavaScript numbers\<close>

text \<open>
  The scoring code computes with JavaScript numbers. They are modelled as real numbers
  together with the one special value the code under study produces and tests for,
  \<open>NaN\<close> (the time value of an invalid \<open>Date\<close>, the result of a failed numeric
  conversion). Rounding and the infinities are not modelled. Arithmetic propagates
  \<open>NaN\<close>. Every division of the modelled code has a divisor that is a non-zero
  constant, the length of a non-empty collection, or a value compared with \<open>0\<close> just
  before, so \<open>Num a / Num 0\<close> is never evaluated.
\<close>

datatype jsnum = NaN | Num real

instantiation jsnum :: "{plus, minus, times, inverse, uminus}"
begin

fun plus_jsnum :: "jsnum \<Rightarrow> jsnum \<Rightarrow> jsnum" where
  "plus_jsnum (Num a) (Num b) = Num (a + b)"
| "plus_jsnum _ _ = NaN"

fun minus_jsnum :: "jsnum \<Rightarrow> jsnum \<Rightarrow> jsnum" where
  "minus_jsnum (Num a) (Num b) = Num (a - b)"
| "minus_jsnum _ _ = NaN"

fun times_jsnum :: "jsnum \<Rightarrow> jsnum \<Rightarrow> jsnum" where
  "times_jsnum (Num a) (Num b) = Num (a * b)"
| "times_jsnum _ _ = NaN"

fun divide_jsnum :: "jsnum \<Rightarrow> jsnum \<Rightarrow> jsnum" where
  "divide_jsnum (Num a) (Num b) = Num (a / b)"
| "divide_jsnum _ _ = NaN"

fun inverse_jsnum :: "jsnum \<Rightarrow> jsnum" where
  "inverse_jsnum (Num a) = Num (1 / a)"
| "inverse_jsnum NaN = NaN"

fun uminus_jsnum :: "jsnum \<Rightarrow> jsnum" where
  "uminus_jsnum (Num a) = Num (- a)"
| "uminus_jsnum NaN = NaN"

instance ..

end

text \<open>\<open>Math.min\<close>, \<open>Math.max\<close>, \<open>Math.floor\<close> and \<open>Math.exp\<close>: \<open>NaN\<close> if an argument is.\<close>

fun Math_min :: "jsnum \<Rightarrow> jsnum \<Rightarrow> jsnum" where
  "Math_min (Num a) (Num b) = Num (min a b)"
| "Math_min _ _ = NaN"

fun Math_max :: "jsnum \<Rightarrow> jsnum \<Rightarrow> jsnum" where
  "Math_max (Num a) (Num b) = Num (max a b)"
| "Math_max _ _ = NaN"

fun Math_floor :: "jsnum \<Rightarrow> jsnum" where
  "Math_floor (Num a) = Num (of_int \<lfloor>a\<rfloor>)"
| "Math_floor NaN = NaN"

fun Math_exp :: "jsnum \<Rightarrow> jsnum" where
  "Math_exp (Num a) = Num (exp a)"
| "Math_exp NaN = NaN"

text \<open>Truthiness of a number: \<open>0\<close> and \<open>NaN\<close> are falsy.\<close>

fun truthy :: "jsnum \<Rightarrow> bool" where
  "truthy (Num a) = (a \<noteq> 0)"
| "truthy NaN = False"

text \<open>
  \<open>x || d\<close> for a possibly undefined number \<open>x\<close> (\<open>None\<close> is \<open>undefined\<close>): the
  default \<open>d\<close> replaces \<open>undefined\<close>, \<open>0\<close> and \<open>NaN\<close> alike.
\<close>

fun or_else :: "jsnum option \<Rightarrow> jsnum \<Rightarrow> jsnum" where
  "or_else None d = d"
| "or_else (Some x) d = (if truthy x then x else d)"

section \<open>The lexical scorer\<close>

text \<open>
  \<open>calculateFuzzyScore\<close> of \<open>utils/searchUtils.ts\<close>. A string is the list of its
  characters. Two functions of the runtime are parameters: \<open>toLowerCase\<close>
  (\<open>String.prototype.toLowerCase\<close>) and \<open>isSpace\<close>, the character class \<open>\s\<close> of
  the regular expressions.
\<close>

text \<open>\<open>text.includes(query)\<close>: \<open>query\<close> occurs in \<open>text\<close> as a contiguous substring.\<close>

fun startsWith :: "'c list \<Rightarrow> 'c list \<Rightarrow> bool" where
  "startsWith _ [] = True"
| "startsWith [] (q # qs) = False"
| "startsWith (t # ts) (q # qs) = (t = q \<and> startsWith ts qs)"

fun includes_str :: "'c list \<Rightarrow> 'c list \<Rightarrow> bool" where
  "includes_str [] q = (q = [])"
| "includes_str (t # ts) q = (startsWith (t # ts) q \<or> includes_str ts q)"

text \<open>
  \<open>s.split(/\s+/).filter(Boolean)\<close>: the maximal runs of characters that are not
  white space, in order. \<open>cur\<close> is the run being read.
\<close>

fun split_ws :: "('c \<Rightarrow> bool) \<Rightarrow> 'c list \<Rightarrow> 'c list \<Rightarrow> 'c list list" where
  "split_ws isSpace cur [] = (if cur = [] then [] else [cur])"
| "split_ws isSpace cur (c # cs) =
     (if isSpace c then (if cur = [] then split_ws isSpace [] cs else cur # split_ws isSpace [] cs)
      else split_ws isSpace (cur @ [c]) cs)"

definition words_of :: "('c \<Rightarrow> bool) \<Rightarrow> 'c list \<Rightarrow> 'c list list" where
  "words_of isSpace s = split_ws isSpace [] s"

text \<open>\<open>new Set(xs)\<close>: the distinct elements in the order of their first insertion.\<close>

definition Set_add :: "'a list \<Rightarrow> 'a \<Rightarrow> 'a list" where
  "Set_add s x = (if x \<in> set s then s else s @ [x])"

definition new_Set :: "'a list \<Rightarrow> 'a list" where
  "new_Set xs = foldl Set_add [] xs"

text \<open>\<open>xs.indexOf(w)\<close>: the first index of \<open>w\<close>, or \<open>-1\<close>.\<close>

fun indexOf :: "'a list \<Rightarrow> 'a \<Rightarrow> int" where
  "indexOf [] w = -1"
| "indexOf (x # xs) w =
     (if x = w then 0 else (let i = indexOf xs w in if i = -1 then -1 else i + 1))"

text \<open>The gaps between consecutive positions (the \<open>for\<close> loop over \<open>positions\<close>).\<close>

fun gaps_of :: "int list \<Rightarrow> int list" where
  "gaps_of (p # q # ps) = (q - p) # gaps_of (q # ps)"
| "gaps_of _ = []"

definition proximity_boost :: "'c list list \<Rightarrow> 'c list list \<Rightarrow> real" where
  "proximity_boost textWordList matchingWords =
     (if length matchingWords > 1 then
        (let positions = filter (\<lambda>i. i \<noteq> -1) (map (indexOf textWordList) matchingWords) in
         if length positions > 1 then
           (let gaps = gaps_of (sort positions) in
            if length gaps > 0 then
              (let avgGap = real_of_int (sum_list gaps) / real (length gaps) in
               max 0 (0.2 * (1 - min (avgGap / 10) 1)))
            else 0)
         else 0)
      else 0)"

definition calculateFuzzyScore ::
  "('c list \<Rightarrow> 'c list) \<Rightarrow> ('c \<Rightarrow> bool) \<Rightarrow> 'c list \<Rightarrow> 'c list \<Rightarrow> real" where
  "calculateFuzzyScore toLowerCase isSpace text0 query0 =
     (if text0 = [] \<or> query0 = [] then 0
      else
        (let text = toLowerCase text0; query = toLowerCase query0 in
         if query = text then 1
         else if includes_str text query then
           (let lengthRatio = real (length query) / real (length text) in
            min 1 (0.8 + lengthRatio * 0.2))
         else
           (let textWords = new_Set (words_of isSpace text);
                queryWords = new_Set (words_of isSpace query) in
            if length queryWords = 0 then 0
            else
              (let matchingWords = filter (\<lambda>w. w \<in> set textWords) queryWords;
                   wordScore = real (length matchingWords) / real (length queryWords);
                   boost = proximity_boost (words_of isSpace text) matchingWords in
               min 0.7 (wordScore + boost)))))"

text \<open>
  A concrete runtime for strings of ASCII characters: lower-casing of the letters
  \<open>A\<close> to \<open>Z\<close>, and the ASCII members of the class \<open>\s\<close>.
\<close>

definition ascii_lower_char :: "char \<Rightarrow> char" where
  "ascii_lower_char c =
     (let n = (of_char c :: nat) in if 65 \<le> n \<and> n \<le> 90 then char_of (n + 32) else c)"

definition ascii_toLowerCase :: "string \<Rightarrow> string" where
  "ascii_toLowerCase s = map ascii_lower_char s"

definition ascii_isSpace :: "char \<Rightarrow> bool" where
  "ascii_isSpace c = ((of_char c :: nat) \<in> {9, 10, 11, 12, 13, 32})"

section \<open>The recency scorer\<close>

text \<open>
  The argument \<open>publishedDate: Date | string | number | null\<close> of
  \<open>calculateRecencyScore\<close>. A \<open>Date\<close> object carries its time value in milliseconds,
  \<open>NaN\<close> for an invalid date.
\<close>

datatype published = PNull | PNumber jsnum | PString string | PDate jsnum

text \<open>\<open>!publishedDate\<close> holds of \<open>null\<close>, \<open>0\<close>, \<open>NaN\<close> and the empty string; an object is truthy.\<close>

fun published_truthy :: "published \<Rightarrow> bool" where
  "published_truthy PNull = False"
| "published_truthy (PNumber n) = truthy n"
| "published_truthy (PString s) = (s \<noteq> [])"
| "published_truthy (PDate tv) = True"

text \<open>
  \<open>TimeClip\<close> of the language standard: a time value beyond \<open>8.64e15\<close> milliseconds
  is \<open>NaN\<close>, any other is truncated towards zero.
\<close>

fun TimeClip :: "jsnum \<Rightarrow> jsnum" where
  "TimeClip NaN = NaN"
| "TimeClip (Num t) =
     (if \<bar>t\<bar> > 8640000000000000 then NaN
      else Num (of_int (if 0 \<le> t then \<lfloor>t\<rfloor> else \<lceil>t\<rceil>)))"

text \<open>
  \<open>new Date(publishedDate).getTime()\<close>. \<open>Date_parse\<close> is the runtime's parser of date
  strings; it returns \<open>NaN\<close> for a string it cannot read, and the constructor does not
  throw.
\<close>

fun new_Date :: "(string \<Rightarrow> jsnum) \<Rightarrow> published \<Rightarrow> jsnum" where
  "new_Date Date_parse (PDate tv) = tv"
| "new_Date Date_parse (PNumber n) = TimeClip n"
| "new_Date Date_parse (PString s) = TimeClip (Date_parse s)"
| "new_Date Date_parse PNull = Num 0"

text \<open>
  \<open>calculateRecencyScore\<close>; \<open>now\<close> is \<open>Date.now()\<close>. No statement of the \<open>try\<close> block
  throws, so the \<open>catch\<close> branch (which would return \<open>0.5\<close>) has no counterpart here.
\<close>

definition calculateRecencyScore ::
  "(string \<Rightarrow> jsnum) \<Rightarrow> real \<Rightarrow> published \<Rightarrow> jsnum \<Rightarrow> jsnum" where
  "calculateRecencyScore Date_parse now publishedDate recencyBias =
     (if \<not> published_truthy publishedDate then Num 0.5
      else
        (let pubDate = new_Date Date_parse publishedDate;
             daysSincePub = Math_floor ((Num now - pubDate) / Num (1000 * 60 * 60 * 24)) in
         if recencyBias = Num 0 then Num 1
         else
           (let maxAge = Num 365;
                normalizedAge = Math_min (daysSincePub / maxAge) (Num 1);
                k = Num 5 * recencyBias;
                recencyScore = Math_exp (- k * normalizedAge) in
            recencyScore)))"

section \<open>The score fuser\<close>

text \<open>
  The \<open>scores\<close> and \<open>weights\<close> objects are maps from property names to numbers; a
  property that is absent or \<open>undefined\<close> is \<open>None\<close>.
\<close>

type_synonym jsobj = "string \<Rightarrow> jsnum option"

text \<open>
  One of the five guarded blocks of \<open>calculateWeightedScore\<close>: when the score \<open>sk\<close> and
  the weight \<open>wk\<close> are both defined, add to \<open>totalScore\<close> and \<open>totalWeight\<close>.
\<close>

definition accumulate ::
  "jsobj \<Rightarrow> jsobj \<Rightarrow> string \<Rightarrow> string \<Rightarrow> jsnum \<times> jsnum \<Rightarrow> jsnum \<times> jsnum" where
  "accumulate scores weights sk wk acc =
     (case (scores sk, weights wk) of
        (Some s, Some w) \<Rightarrow> (fst acc + s * w, snd acc + w)
      | _ \<Rightarrow> acc)"

definition totals :: "jsobj \<Rightarrow> jsobj \<Rightarrow> jsnum \<times> jsnum" where
  "totals scores weights =
     accumulate scores weights ''urlVectorScore'' ''urlWeight''
       (accumulate scores weights ''recencyScore'' ''recencyWeight''
         (accumulate scores weights ''fuzzyScore'' ''fuzzyWeight''
           (accumulate scores weights ''avgChunkScore'' ''chunkWeight''
             (accumulate scores weights ''titleVectorScore'' ''titleWeight'' (Num 0, Num 0)))))"

definition calculateWeightedScore :: "jsobj \<Rightarrow> jsobj \<Rightarrow> jsnum" where
  "calculateWeightedScore scores weights =
     (let totalScore = fst (totals scores weights);
          totalWeight = snd (totals scores weights) in
      if totalWeight = Num 0 then Num 0 else totalScore / totalWeight)"

section \<open>Parsing the completion\<close>

datatype json =
  JNull | JBool bool | JNumber real | JString string | JArray "json list"
  | JObject "(string \<times> json) list"

datatype error = ProviderError | TypeError | EmptyResponse | SyntaxError

text \<open>\<open>s.trim()\<close>.\<close>

definition trim :: "(char \<Rightarrow> bool) \<Rightarrow> string \<Rightarrow> string" where
  "trim isSpace s = rev (dropWhile isSpace (rev (dropWhile isSpace s)))"

text \<open>
  \<open>s.replace(/```(?:json)?\s*|\s*```/g, '')\<close>. At each position the first alternative is
  tried before the second; a match is removed and the scan goes on behind it; where
  neither matches, the character is kept. \<open>isSpace\<close> holds of no back quote, brace,
  bracket or comma.
\<close>

function strip_fences :: "(char \<Rightarrow> bool) \<Rightarrow> string \<Rightarrow> string" where
  "strip_fences isSpace s =
     (if startsWith s ''```'' then
        (let r = drop 3 s; r' = (if startsWith r ''json'' then drop 4 r else r) in
         strip_fences isSpace (dropWhile isSpace r'))
      else if startsWith (dropWhile isSpace s) ''```'' then
        strip_fences isSpace (drop 3 (dropWhile isSpace s))
      else (case s of [] \<Rightarrow> [] | c # cs \<Rightarrow> c # strip_fences isSpace cs))"
  by pat_completeness auto
termination
proof (relation "measure (\<lambda>(isSpace, s). length s)")
  show "wf (measure (\<lambda>(isSpace :: char \<Rightarrow> bool, s :: string). length s))" by simp
next
  fix isSpace :: "char \<Rightarrow> bool" and s r r' :: string
  assume a: "startsWith s ''```''" and r: "r = drop 3 s"
    and r': "r' = (if startsWith r ''json'' then drop 4 r else r)"
  from a have "s \<noteq> []" by (cases s) auto
  then have "length r < length s" using r by simp
  moreover have "length r' \<le> length r" using r' by simp
  moreover have "length (dropWhile isSpace r') \<le> length r'" by (rule length_dropWhile_le)
  ultimately show "((isSpace, dropWhile isSpace r'), (isSpace, s)) \<in> measure (\<lambda>(isSpace, s). length s)"
    by simp
next
  fix isSpace :: "char \<Rightarrow> bool" and s :: string
  assume a: "startsWith (dropWhile isSpace s) ''```''"
  then have "dropWhile isSpace s \<noteq> []" by (cases "dropWhile isSpace s") auto
  then have "length (drop 3 (dropWhile isSpace s)) < length (dropWhile isSpace s)" by simp
  moreover have "length (dropWhile isSpace s) \<le> length s" by (rule length_dropWhile_le)
  ultimately show "((isSpace, drop 3 (dropWhile isSpace s)), (isSpace, s)) \<in> measure (\<lambda>(isSpace, s). length s)"
    by simp
next
  fix isSpace :: "char \<Rightarrow> bool" and s :: string and c :: char and cs :: string
  assume "s = c # cs"
  then show "((isSpace, cs), (isSpace, s)) \<in> measure (\<lambda>(isSpace, s). length s)" by simp
qed

declare strip_fences.simps [simp del]

text \<open>
  \<open>/({[\s\S]*})/.exec(s)\<close>: the match starts at the first opening brace and, the star
  being greedy, ends at the last closing brace of the string; there is none when no
  closing brace follows the first opening one.
\<close>

definition extract_object :: "string \<Rightarrow> string option" where
  "extract_object s =
     (case dropWhile (\<lambda>c. c \<noteq> CHR ''{'') s of
        [] \<Rightarrow> None
      | c # body \<Rightarrow>
          (if CHR ''}'' \<in> set body
           then Some (c # rev (dropWhile (\<lambda>c. c \<noteq> CHR ''}'') (rev body)))
           else None))"

text \<open>
  \<open>s.replace(/,\s*X/g, 'X')\<close> for a closing character \<open>X\<close>: a comma, white space and
  \<open>X\<close> become \<open>X\<close>.
\<close>

function strip_comma :: "(char \<Rightarrow> bool) \<Rightarrow> char \<Rightarrow> string \<Rightarrow> string" where
  "strip_comma isSpace x [] = []"
| "strip_comma isSpace x (c # cs) =
     (if c = CHR '','' \<and> startsWith (dropWhile isSpace cs) [x]
      then x # strip_comma isSpace x (drop 1 (dropWhile isSpace cs))
      else c # strip_comma isSpace x cs)"
  by pat_completeness auto
termination
proof (relation "measure (\<lambda>(isSpace, x, s). length s)")
  show "wf (measure (\<lambda>(isSpace :: char \<Rightarrow> bool, x :: char, s :: string). length s))" by simp
next
  fix isSpace :: "char \<Rightarrow> bool" and x c :: char and cs :: string
  have "length (drop 1 (dropWhile isSpace cs)) \<le> length (dropWhile isSpace cs)" by simp
  moreover have "length (dropWhile isSpace cs) \<le> length cs" by (rule length_dropWhile_le)
  ultimately show "((isSpace, x, drop 1 (dropWhile isSpace cs)), (isSpace, x, c # cs))
      \<in> measure (\<lambda>(isSpace, x, s). length s)"
    by simp
next
  fix isSpace :: "char \<Rightarrow> bool" and x c :: char and cs :: string
  show "((isSpace, x, cs), (isSpace, x, c # cs)) \<in> measure (\<lambda>(isSpace, x, s). length s)" by simp
qed

text \<open>
  \<open>cleanAndParseJson\<close>. \<open>JSON_parse\<close> is the runtime's \<open>JSON.parse\<close>, \<open>None\<close> when it
  throws. The function throws when the second attempt does.
\<close>

definition cleanAndParseJson ::
  "(char \<Rightarrow> bool) \<Rightarrow> (string \<Rightarrow> json option) \<Rightarrow> string \<Rightarrow> error + json" where
  "cleanAndParseJson isSpace JSON_parse jsonString =
     (let cleaned0 = strip_fences isSpace (trim isSpace jsonString);
          cleanedString = (case extract_object cleaned0 of Some m \<Rightarrow> m | None \<Rightarrow> cleaned0) in
      case JSON_parse cleanedString of
        Some v \<Rightarrow> Inr v
      | None \<Rightarrow>
          (case JSON_parse
                  (strip_comma isSpace CHR '']'' (strip_comma isSpace CHR ''}'' cleanedString)) of
             Some v \<Rightarrow> Inr v
           | None \<Rightarrow> Inl SyntaxError))"

section \<open>The reranker\<close>

text \<open>
  What the completion provider gives back to \<open>rerankResults\<close>: the call is rejected, or
  it returns the list of its choices, each with its message content (\<open>None\<close> for
  \<open>null\<close>). The prompt only goes out to the provider and is not modelled.
\<close>

datatype completion = Rejected | Choices "string option list"

text \<open>The name of an array index: its decimal digits, the most significant first.\<close>

definition digit_char :: "nat \<Rightarrow> char" where
  "digit_char d = char_of (of_char CHR ''0'' + d)"

fun index_name :: "nat \<Rightarrow> string" where
  "index_name i = (if 10 \<le> i then index_name (i div 10) else []) @ [digit_char (i mod 10)]"

text \<open>
  \<open>Object.entries\<close> of a parsed value that passed \<open>typeof v === 'object'\<close>: the
  properties of an object, the indexed elements of an array.
\<close>

fun Object_entries :: "json \<Rightarrow> (string \<times> json) list" where
  "Object_entries (JObject es) = es"
| "Object_entries (JArray xs) = zip (map index_name [0..<length xs]) xs"
| "Object_entries _ = []"

text \<open>\<open>rerankScores && typeof rerankScores === 'object'\<close>: \<open>null\<close> is falsy.\<close>

fun is_object :: "json \<Rightarrow> bool" where
  "is_object (JObject es) = True"
| "is_object (JArray xs) = True"
| "is_object _ = False"

text \<open>
  The body of the \<open>forEach\<close> over the entries: \<open>toNumber\<close> is the conversion
  \<open>Number(score)\<close> of the runtime; a score that is a number is clamped to \<open>[0,1]\<close> and
  stored, any other is dropped.
\<close>

definition set_score ::
  "(json \<Rightarrow> jsnum) \<Rightarrow> jsobj \<Rightarrow> string \<times> json \<Rightarrow> jsobj" where
  "set_score toNumber scoreMap e =
     (let numScore = toNumber (snd e) in
      if numScore \<noteq> NaN
      then scoreMap(fst e \<mapsto> Math_min (Math_max numScore (Num 0)) (Num 1))
      else scoreMap)"

record RerankableDocument =
  docId :: string
  title :: string
  content :: string

text \<open>The \<open>try\<close> block of \<open>rerankResults\<close>; \<open>Inl\<close> is a thrown error.\<close>

definition rerankResults_try ::
  "(char \<Rightarrow> bool) \<Rightarrow> (string \<Rightarrow> json option) \<Rightarrow> (json \<Rightarrow> jsnum) \<Rightarrow> completion \<Rightarrow>
   error + jsobj" where
  "rerankResults_try isSpace JSON_parse toNumber completion =
     (case completion of
        Rejected \<Rightarrow> Inl ProviderError
      | Choices [] \<Rightarrow> Inl TypeError
      | Choices (responseContent # _) \<Rightarrow>
          (case responseContent of
             None \<Rightarrow> Inl EmptyResponse
           | Some r \<Rightarrow>
               if r = [] then Inl EmptyResponse
               else
                 (case cleanAndParseJson isSpace JSON_parse r of
                    Inl e \<Rightarrow> Inl e
                  | Inr rerankScores \<Rightarrow>
                      Inr (if is_object rerankScores
                           then foldl (set_score toNumber) Map.empty (Object_entries rerankScores)
                           else Map.empty))))"

text \<open>The \<open>catch\<close> block: every document gets the default score \<open>0.5\<close>.\<close>

definition defaultScores :: "'a RerankableDocument_scheme list \<Rightarrow> jsobj" where
  "defaultScores documents = foldl (\<lambda>m doc. m(docId doc \<mapsto> Num 0.5)) Map.empty documents"

definition rerankResults ::
  "(char \<Rightarrow> bool) \<Rightarrow> (string \<Rightarrow> json option) \<Rightarrow> (json \<Rightarrow> jsnum) \<Rightarrow> completion \<Rightarrow>
   'a RerankableDocument_scheme list \<Rightarrow> error + jsobj" where
  "rerankResults isSpace JSON_parse toNumber completion documents =
     (case rerankResults_try isSpace JSON_parse toNumber completion of
        Inr scoreMap \<Rightarrow> Inr scoreMap
      | Inl e \<Rightarrow> Inr (defaultScores documents))"

section \<open>Document search\<close>

text \<open>
  The part of \<open>DocumentSearchService.search\<close> that follows the two index queries. A hit
  of the document index, with \<open>parseInt\<close> of its date and \<open>parseFloat\<close> of its distance
  already applied (\<open>NaN\<close> when the field does not parse):
\<close>

record DocHit =
  v_doc_id :: string
  v_title :: string
  v_content :: string
  v_signalUrl :: string
  v_publishedDate :: jsnum
  v_classification :: string
  v_title_vector_score :: jsnum

record SearchResult = RerankableDocument +
  signalUrl :: string
  publishedDate :: jsnum
  classification :: string
  titleVectorScore :: jsnum
  avgChunkScore :: jsnum
  fuzzyScore :: jsnum
  recencyScore :: "jsnum option"
  rerankScore :: "jsnum option"
  overallScore :: jsnum
  weightedScore :: "jsnum option"

text \<open>
  The chunk hits are pairs of \<open>parent_id\<close> and \<open>chunk_vector_score\<close>. \<open>chunkScores\<close>
  collects the scores of each parent in order, \<open>avgChunkScores\<close> is their mean.
\<close>

definition push_chunk :: "(string \<Rightarrow> jsnum list option) \<Rightarrow> string \<times> jsnum \<Rightarrow> (string \<Rightarrow> jsnum list option)" where
  "push_chunk chunkScores c =
     chunkScores(fst c \<mapsto> (case chunkScores (fst c) of None \<Rightarrow> [] | Some l \<Rightarrow> l) @ [snd c])"

definition chunkScores_of :: "(string \<times> jsnum) list \<Rightarrow> (string \<Rightarrow> jsnum list option)" where
  "chunkScores_of chunks = foldl push_chunk Map.empty chunks"

definition avgChunkScores_of :: "(string \<times> jsnum) list \<Rightarrow> jsobj" where
  "avgChunkScores_of chunks parentId =
     (case chunkScores_of chunks parentId of
        None \<Rightarrow> None
      | Some scores \<Rightarrow> Some (foldl (+) (Num 0) scores / Num (real (length scores))))"

text \<open>The body of the loop over \<open>docsResults.documents\<close>.\<close>

definition processDoc ::
  "(string \<Rightarrow> string) \<Rightarrow> (char \<Rightarrow> bool) \<Rightarrow> (string \<Rightarrow> jsnum) \<Rightarrow> real \<Rightarrow>
   string \<Rightarrow> jsnum \<Rightarrow> jsobj \<Rightarrow> DocHit \<Rightarrow> SearchResult" where
  "processDoc toLowerCase isSpace Date_parse now exactQuery recencyBias avgChunkScores doc =
     (let titleVectorScore = v_title_vector_score doc;
          avgChunkScore = or_else (avgChunkScores (v_doc_id doc)) (Num 0);
          titleFuzzyScore = calculateFuzzyScore toLowerCase isSpace (v_title doc) exactQuery;
          contentFuzzyScore = calculateFuzzyScore toLowerCase isSpace (v_content doc) exactQuery;
          fuzzyScore = Num (max titleFuzzyScore contentFuzzyScore);
          recencyScore = calculateRecencyScore Date_parse now
                           (PDate (TimeClip (v_publishedDate doc))) recencyBias;
          overallScore = (titleVectorScore + avgChunkScore + (fuzzyScore * Num 1.5) + recencyScore) / Num 4
      in \<lparr> docId = v_doc_id doc, title = v_title doc, content = v_content doc,
           signalUrl = v_signalUrl doc, publishedDate = TimeClip (v_publishedDate doc),
           classification = v_classification doc,
           titleVectorScore = titleVectorScore, avgChunkScore = avgChunkScore,
           fuzzyScore = fuzzyScore, recencyScore = Some recencyScore, rerankScore = None,
           overallScore = overallScore, weightedScore = None \<rparr>)"

text \<open>
  The reranking block. \<open>reranked\<close> is what the call of \<open>rerankResults\<close> gave: on a map,
  every document gets \<open>rerankScores.get(doc.docId) || 0.5\<close>; on a thrown error the
  \<open>catch\<close> branch leaves the documents as they are.
\<close>

definition applyRerank :: "bool \<Rightarrow> error + jsobj \<Rightarrow> SearchResult list \<Rightarrow> SearchResult list" where
  "applyRerank useLlmReranking reranked output =
     (if useLlmReranking \<and> length output > 0 then
        (case reranked of
           Inr rerankScores \<Rightarrow>
             map (\<lambda>doc. doc\<lparr>rerankScore := Some (or_else (rerankScores (docId doc)) (Num 0.5))\<rparr>) output
         | Inl e \<Rightarrow> output)
      else output)"

text \<open>
  The body of the loop that computes the weighted scores. \<open>scores_of\<close> is the object
  literal \<open>scores\<close> before the rerank score is added to it.
\<close>

definition scores_of :: "SearchResult \<Rightarrow> jsobj" where
  "scores_of doc =
     (Map.empty(''titleVectorScore'' \<mapsto> titleVectorScore doc,
                ''avgChunkScore'' \<mapsto> avgChunkScore doc,
                ''fuzzyScore'' \<mapsto> fuzzyScore doc))
       (''recencyScore'' := recencyScore doc)"

definition weigh :: "jsobj \<Rightarrow> SearchResult \<Rightarrow> SearchResult" where
  "weigh weights doc =
     (let scores = scores_of doc;
          weightsCopy = weights;
          scores' = (if rerankScore doc \<noteq> None then scores(''rerankScore'' := rerankScore doc) else scores);
          weightsCopy' = (if rerankScore doc \<noteq> None then weightsCopy(''rerankWeight'' \<mapsto> Num 2)
                          else weightsCopy)
      in doc\<lparr>weightedScore := Some (calculateWeightedScore scores' weightsCopy')\<rparr>)"

text \<open>
  \<open>Array.prototype.sort\<close> with a comparison function: the sort is stable, and a
  comparison that yields \<open>NaN\<close> counts as \<open>0\<close>. It is modelled by insertion from the
  right, which keeps an element before every later one it does not compare greater than.
\<close>

fun cmp_positive :: "jsnum \<Rightarrow> bool" where
  "cmp_positive (Num v) = (v > 0)"
| "cmp_positive NaN = False"

fun sort_insert :: "('a \<Rightarrow> 'a \<Rightarrow> jsnum) \<Rightarrow> 'a \<Rightarrow> 'a list \<Rightarrow> 'a list" where
  "sort_insert cmp x [] = [x]"
| "sort_insert cmp x (y # ys) =
     (if cmp_positive (cmp x y) then y # sort_insert cmp x ys else x # y # ys)"

definition Array_sort :: "('a \<Rightarrow> 'a \<Rightarrow> jsnum) \<Rightarrow> 'a list \<Rightarrow> 'a list" where
  "Array_sort cmp xs = foldr (sort_insert cmp) xs []"

text \<open>The real value of a number that is not \<open>NaN\<close>.\<close>

fun num_of :: "jsnum \<Rightarrow> real" where
  "num_of (Num r) = r"
| "num_of NaN = 0"

text \<open>The sort key \<open>x.weightedScore || x.overallScore\<close> and the comparison function.\<close>

definition sortKey :: "SearchResult \<Rightarrow> jsnum" where
  "sortKey x = or_else (weightedScore x) (overallScore x)"

definition byScore :: "SearchResult \<Rightarrow> SearchResult \<Rightarrow> jsnum" where
  "byScore a b = sortKey b - sortKey a"

text \<open>
  The search from the results of the index on: \<open>docs\<close> and \<open>chunks\<close> are the hits of the
  two queries, \<open>exactQuery\<close> and \<open>recencyBias\<close> are the values left by the query
  preparation, \<open>completion\<close> is the provider's answer to the reranking prompt. The source
  calls \<open>rerankResults\<close> inside the reranking block only; the call has no effect but its
  result, which \<open>applyRerank\<close> reads under the same condition.
\<close>

definition documentSearch ::
  "(string \<Rightarrow> string) \<Rightarrow> (char \<Rightarrow> bool) \<Rightarrow> (string \<Rightarrow> jsnum) \<Rightarrow> real \<Rightarrow>
   (string \<Rightarrow> json option) \<Rightarrow> (json \<Rightarrow> jsnum) \<Rightarrow>
   string \<Rightarrow> jsnum \<Rightarrow> bool \<Rightarrow> jsobj \<Rightarrow> DocHit list \<Rightarrow> (string \<times> jsnum) list \<Rightarrow> completion \<Rightarrow>
   SearchResult list" where
  "documentSearch toLowerCase isSpace Date_parse now JSON_parse toNumber
       exactQuery recencyBias useLlmReranking weights docs chunks completion =
     (let output = map (processDoc toLowerCase isSpace Date_parse now exactQuery recencyBias
                          (avgChunkScores_of chunks)) docs;
          output' = applyRerank useLlmReranking
                      (rerankResults isSpace JSON_parse toNumber completion output) output
      in Array_sort byScore (map (weigh weights) output'))"

section \<open>URL search\<close>

record UrlHit =
  v_url_id :: string
  v_url :: string
  v_page_title :: string
  v_url_title_vector_score :: jsnum

record UrlSearchResult =
  urlId :: string
  url :: string
  pageTitle :: string
  u_titleVectorScore :: jsnum
  u_urlVectorScore :: jsnum
  u_fuzzyScore :: jsnum
  u_overallScore :: jsnum
  u_weightedScore :: "jsnum option"

text \<open>\<open>urlScores\<close>: the last score of each \<open>url_id\<close> among the hits of the URL query.\<close>

definition urlScores_of :: "(string \<times> jsnum) list \<Rightarrow> jsobj" where
  "urlScores_of hits = foldl (\<lambda>m h. m(fst h \<mapsto> snd h)) Map.empty hits"

definition processUrl ::
  "(string \<Rightarrow> string) \<Rightarrow> (char \<Rightarrow> bool) \<Rightarrow> string \<Rightarrow> jsobj \<Rightarrow> jsobj \<Rightarrow> UrlHit \<Rightarrow> UrlSearchResult" where
  "processUrl toLowerCase isSpace fuzzyValue weights urlScores doc =
     (let titleVectorScore = v_url_title_vector_score doc;
          urlVectorScore = or_else (urlScores (v_url_id doc)) (Num 0);
          urlFuzzyScore = calculateFuzzyScore toLowerCase isSpace (v_url doc) fuzzyValue;
          titleFuzzyScore = calculateFuzzyScore toLowerCase isSpace (v_page_title doc) fuzzyValue;
          fuzzyScore = Num (max urlFuzzyScore titleFuzzyScore);
          overallScore = (titleVectorScore + urlVectorScore + (fuzzyScore * Num 1.5)) / Num 3.5;
          weightedScore = calculateWeightedScore
                            (Map.empty(''titleVectorScore'' \<mapsto> titleVectorScore,
                                       ''urlVectorScore'' \<mapsto> urlVectorScore,
                                       ''fuzzyScore'' \<mapsto> fuzzyScore))
                            weights
      in \<lparr> urlId = v_url_id doc, url = v_url doc, pageTitle = v_page_title doc,
           u_titleVectorScore = titleVectorScore, u_urlVectorScore = urlVectorScore,
           u_fuzzyScore = fuzzyScore, u_overallScore = overallScore,
           u_weightedScore = Some weightedScore \<rparr>)"

definition u_sortKey :: "UrlSearchResult \<Rightarrow> jsnum" where
  "u_sortKey x = or_else (u_weightedScore x) (u_overallScore x)"

definition u_byScore :: "UrlSearchResult \<Rightarrow> UrlSearchResult \<Rightarrow> jsnum" where
  "u_byScore a b = u_sortKey b - u_sortKey a"

definition urlSearch ::
  "(string \<Rightarrow> string) \<Rightarrow> (char \<Rightarrow> bool) \<Rightarrow> string \<Rightarrow> jsobj \<Rightarrow> UrlHit list \<Rightarrow>
   (string \<times> jsnum) list \<Rightarrow> UrlSearchResult list" where
  "urlSearch toLowerCase isSpace fuzzyValue weights titleHits urlHits =
     Array_sort u_byScore
       (map (processUrl toLowerCase isSpace fuzzyValue weights (urlScores_of urlHits)) titleHits)"

section \<open>Conditions and inputs of the properties\<close>

text \<open>
  The failures of the completion that \<open>rerankResults\<close> meets: the provider rejects the
  call, it returns no choice, the content of the first choice is \<open>null\<close> or empty, or the
  content is malformed, that is \<open>cleanAndParseJson\<close> throws on it.
\<close>

fun completion_fails :: "(char \<Rightarrow> bool) \<Rightarrow> (string \<Rightarrow> json option) \<Rightarrow> completion \<Rightarrow> bool" where
  "completion_fails isSpace JSON_parse Rejected = True"
| "completion_fails isSpace JSON_parse (Choices []) = True"
| "completion_fails isSpace JSON_parse (Choices (None # cs)) = True"
| "completion_fails isSpace JSON_parse (Choices (Some r # cs)) =
     (r = [] \<or> isl (cleanAndParseJson isSpace JSON_parse r))"

text \<open>The five signals of \<open>calculateWeightedScore\<close>: the name of the score and of its weight.\<close>

definition signals :: "(string \<times> string) list" where
  "signals =
     [(''titleVectorScore'', ''titleWeight''), (''avgChunkScore'', ''chunkWeight''),
      (''fuzzyScore'', ''fuzzyWeight''), (''recencyScore'', ''recencyWeight''),
      (''urlVectorScore'', ''urlWeight'')]"

text \<open>The default of \<open>options.weights\<close> in document search.\<close>

definition defaultWeights :: jsobj where
  "defaultWeights =
     Map.empty(''titleWeight'' \<mapsto> Num 1, ''chunkWeight'' \<mapsto> Num 1,
               ''fuzzyWeight'' \<mapsto> Num 1.5, ''recencyWeight'' \<mapsto> Num 1)"

text \<open>
  Inputs of the examples. Two hits of the document index, published at the instant \<open>0\<close>,
  whose title and content share no word with the query \<open>zzz\<close>; the first at distance
  \<open>0\<close> of the query vector, the second at distance \<open>0.1\<close>.
\<close>

definition hitA :: DocHit where
  "hitA = \<lparr> v_doc_id = ''a'', v_title = ''x'', v_content = ''y'', v_signalUrl = [],
            v_publishedDate = Num 0, v_classification = [], v_title_vector_score = Num 0 \<rparr>"

definition hitB :: DocHit where
  "hitB = \<lparr> v_doc_id = ''b'', v_title = ''x'', v_content = ''y'', v_signalUrl = [],
            v_publishedDate = Num 0, v_classification = [], v_title_vector_score = Num (1 / 10) \<rparr>"

text \<open>The candidates that \<open>processDoc\<close> builds from the two hits when no chunk was found.\<close>

definition candA :: SearchResult where
  "candA = \<lparr> docId = ''a'', title = ''x'', content = ''y'', signalUrl = [], publishedDate = Num 0,
             classification = [], titleVectorScore = Num 0, avgChunkScore = Num 0,
             fuzzyScore = Num 0, recencyScore = Some (Num 1), rerankScore = None,
             overallScore = Num (1 / 4), weightedScore = None \<rparr>"

definition candB :: SearchResult where
  "candB = \<lparr> docId = ''b'', title = ''x'', content = ''y'', signalUrl = [], publishedDate = Num 0,
             classification = [], titleVectorScore = Num (1 / 10), avgChunkScore = Num 0,
             fuzzyScore = Num 0, recencyScore = Some (Num 1), rerankScore = None,
             overallScore = Num (11 / 40), weightedScore = None \<rparr>"

text \<open>A hit of the URL index, and the default of \<open>options.weights\<close> in URL search.\<close>

definition hitU :: UrlHit where
  "hitU = \<lparr> v_url_id = ''u'', v_url = ''x'', v_page_title = ''y'',
            v_url_title_vector_score = Num (1 / 5) \<rparr>"

definition defaultUrlWeights :: jsobj where
  "defaultUrlWeights =
     Map.empty(''titleWeight'' \<mapsto> Num 1, ''urlWeight'' \<mapsto> Num 1, ''fuzzyWeight'' \<mapsto> Num 1.5)"

text \<open>The candidate that \<open>processUrl\<close> builds from \<open>hitU\<close> with the default weights.\<close>

definition candU :: UrlSearchResult where
  "candU = \<lparr> urlId = ''u'', url = ''x'', pageTitle = ''y'', u_titleVectorScore = Num (1 / 5),
             u_urlVectorScore = Num 0, u_fuzzyScore = Num 0, u_overallScore = Num (2 / 35),
             u_weightedScore = Some (Num (2 / 35)) \<rparr>"

text \<open>The formula of the overall score, as a predicate on the candidates of each search.\<close>

definition overall_ok :: "SearchResult \<Rightarrow> bool" where
  "overall_ok c =
     (case recencyScore c of
        None \<Rightarrow> False
      | Some r \<Rightarrow>
          overallScore c = (titleVectorScore c + avgChunkScore c + fuzzyScore c * Num 1.5 + r) / Num 4)"

definition u_overall_ok :: "UrlSearchResult \<Rightarrow> bool" where
  "u_overall_ok c =
     (u_overallScore c = (u_titleVectorScore c + u_urlVectorScore c + u_fuzzyScore c * Num 1.5) / Num 3.5)"

text \<open>
  A stand-in for \<open>JSON.parse\<close> that reads the two completions of the examples and rejects
  every other text, and \<open>Number\<close> on the numbers of JSON.
\<close>

definition example_JSON_parse :: "string \<Rightarrow> json option" where
  "example_JSON_parse s =
     (if s = ''{\"a\": 1}'' then Some (JObject [(''a'', JNumber 1)])
      else if s = ''{\"a\": 0}'' then Some (JObject [(''a'', JNumber 0)])
      else None)"

fun example_toNumber :: "json \<Rightarrow> jsnum" where
  "example_toNumber (JNumber r) = Num r"
| "example_toNumber _ = NaN"

section \<open>Properties of the lexical scorer\<close>

lemma proximity_boost_nonneg: "0 \<le> proximity_boost ws ms"
  by (simp add: proximity_boost_def Let_def)

lemma cap_le: "c \<le> d \<Longrightarrow> min c x \<le> (d::real)"
  by (simp add: min.coboundedI1)

lemma calculateFuzzyScore_lower: "0 \<le> calculateFuzzyScore lc sp t q"
  unfolding calculateFuzzyScore_def Let_def
  by (auto intro!: add_nonneg_nonneg proximity_boost_nonneg divide_nonneg_nonneg mult_nonneg_nonneg)

lemma calculateFuzzyScore_upper: "calculateFuzzyScore lc sp t q \<le> 1"
  unfolding calculateFuzzyScore_def Let_def
  by (auto intro!: cap_le)

lemma calculateFuzzyScore_exact:
  "t \<noteq> [] \<Longrightarrow> q \<noteq> [] \<Longrightarrow> lc q = lc t \<Longrightarrow> calculateFuzzyScore lc sp t q = 1"
  by (simp add: calculateFuzzyScore_def)

text \<open>
  The bound is stated for any \<open>c\<close> above the cap first: with the numeral in the
  conclusion the simplifier would clear the fraction before it splits the branches.
\<close>

lemma calculateFuzzyScore_overlap_gen:
  "0.7 \<le> c \<Longrightarrow> lc q \<noteq> lc t \<Longrightarrow> \<not> includes_str (lc t) (lc q) \<Longrightarrow>
   calculateFuzzyScore lc sp t q \<le> c"
  by (simp add: calculateFuzzyScore_def Let_def min_le_iff_disj)

lemma calculateFuzzyScore_overlap:
  "lc q \<noteq> lc t \<Longrightarrow> \<not> includes_str (lc t) (lc q) \<Longrightarrow> calculateFuzzyScore lc sp t q \<le> 0.7"
  by (rule calculateFuzzyScore_overlap_gen) simp_all

lemma calculateFuzzyScore_substring:
  assumes "t \<noteq> []" "q \<noteq> []" "includes_str (lc t) (lc q)"
  shows "0.8 \<le> calculateFuzzyScore lc sp t q"
proof (cases "lc q = lc t")
  case True
  with assms show ?thesis by (simp add: calculateFuzzyScore_def)
next
  case False
  have r: "0 \<le> real (length (lc q)) / real (length (lc t)) * 0.2" by simp
  have "0.8 \<le> min 1 (0.8 + real (length (lc q)) / real (length (lc t)) * 0.2)"
    using r by (simp only: min.bounded_iff) simp
  with assms False show ?thesis
    unfolding calculateFuzzyScore_def Let_def by (simp only: if_False if_True simp_thms)
qed

lemma startsWith_map: "startsWith t q \<Longrightarrow> startsWith (map f t) (map f q)"
  by (induction t q rule: startsWith.induct) auto

lemma includes_str_map: "includes_str t q \<Longrightarrow> includes_str (map f t) (map f q)"
proof (induction t)
  case Nil
  then show ?case by simp
next
  case (Cons a t)
  from Cons.prems have "startsWith (a # t) q \<or> includes_str t q" by simp
  then show ?case
  proof
    assume "startsWith (a # t) q"
    then have "startsWith (map f (a # t)) (map f q)" by (rule startsWith_map)
    then show ?thesis by simp
  next
    assume "includes_str t q"
    then have "includes_str (map f t) (map f q)" by (rule Cons.IH)
    then show ?thesis by simp
  qed
qed

lemma includes_str_nonempty: "includes_str t q \<Longrightarrow> q \<noteq> [] \<Longrightarrow> t \<noteq> []"
  by (cases t) auto

lemma ascii_lower_space: "ascii_isSpace c \<Longrightarrow> ascii_lower_char c = c"
  by (auto simp: ascii_isSpace_def ascii_lower_char_def Let_def)

lemma ascii_toLowerCase_spaces: "list_all ascii_isSpace s \<Longrightarrow> ascii_toLowerCase s = s"
  by (induction s) (simp_all add: ascii_toLowerCase_def ascii_lower_space)

lemma split_ws_all_space: "list_all sp s \<Longrightarrow> split_ws sp [] s = []"
  by (induction s) auto

text \<open>
  Claim C5, as amended. For every text and query, \<open>calculateFuzzyScore\<close> returns a
  value in \<open>[0,1]\<close>; when text and query are both non-empty and equal after
  lower-casing it returns exactly \<open>1\<close>; and when the lower-cased query is neither equal
  to the lower-cased text nor a substring of it, the result is at most \<open>0.7\<close>, whatever
  the proximity boost. (The empty-string guard comes first in the code: two empty
  strings are equal, and score \<open>0\<close>.)
\<close>

theorem calculateFuzzyScore_range:
  "0 \<le> calculateFuzzyScore lc sp t q \<and> calculateFuzzyScore lc sp t q \<le> 1 \<and>
   (t \<noteq> [] \<and> q \<noteq> [] \<and> lc q = lc t \<longrightarrow> calculateFuzzyScore lc sp t q = 1) \<and>
   (lc q \<noteq> lc t \<and> \<not> includes_str (lc t) (lc q) \<longrightarrow> calculateFuzzyScore lc sp t q \<le> 0.7)"
  using calculateFuzzyScore_lower [of lc sp t q] calculateFuzzyScore_upper [of lc sp t q]
    calculateFuzzyScore_exact [of t q lc sp] calculateFuzzyScore_overlap [of lc q t sp]
  by blast

theorem calculateFuzzyScore_range_witness:
  "ascii_toLowerCase ''hello world'' = ascii_toLowerCase ''Hello World'' \<and>
   calculateFuzzyScore ascii_toLowerCase ascii_isSpace ''Hello World'' ''hello world'' = 1 \<and>
   ascii_toLowerCase ''quick fox cat'' \<noteq> ascii_toLowerCase ''the quick brown fox'' \<and>
   \<not> includes_str (ascii_toLowerCase ''the quick brown fox'') (ascii_toLowerCase ''quick fox cat'') \<and>
   0 \<le> calculateFuzzyScore ascii_toLowerCase ascii_isSpace ''the quick brown fox'' ''quick fox cat'' \<and>
   calculateFuzzyScore ascii_toLowerCase ascii_isSpace ''the quick brown fox'' ''quick fox cat'' \<le> 0.7"
proof -
  have e: "ascii_toLowerCase ''hello world'' = ascii_toLowerCase ''Hello World''"
    by code_simp
  have n: "ascii_toLowerCase ''quick fox cat'' \<noteq> ascii_toLowerCase ''the quick brown fox''"
    by code_simp
  have i: "\<not> includes_str (ascii_toLowerCase ''the quick brown fox'') (ascii_toLowerCase ''quick fox cat'')"
    by code_simp
  show ?thesis
    using e n i
      calculateFuzzyScore_range [of ascii_toLowerCase ascii_isSpace "''Hello World''" "''hello world''"]
      calculateFuzzyScore_range [of ascii_toLowerCase ascii_isSpace "''the quick brown fox''" "''quick fox cat''"]
    by simp
qed

text \<open>
  The claim C5 as it is written fails at the pair of empty strings: they are equal, also
  after lower-casing, and the score is \<open>0\<close>, not \<open>1\<close>.
\<close>

theorem calculateFuzzyScore_exact_counterexample:
  "ascii_toLowerCase [] = ascii_toLowerCase [] \<and>
   calculateFuzzyScore ascii_toLowerCase ascii_isSpace [] [] \<noteq> 1"
  by (simp add: calculateFuzzyScore_def)

text \<open>
  Claim C10. A non-empty query made of white space only has no token, yet whenever it
  occurs in the text as a substring \<open>calculateFuzzyScore\<close> returns at least \<open>0.8\<close>:
  only the empty string is caught by the guard, and the substring branch is taken before
  the query is split into tokens. The witness is the query of a single space and the text
  \<open>a b\<close>.
\<close>

theorem calculateFuzzyScore_whitespace_query:
  assumes "q \<noteq> []" "list_all ascii_isSpace q" "includes_str t q"
  shows "t \<noteq> [] \<and> words_of ascii_isSpace (ascii_toLowerCase q) = [] \<and>
         0.8 \<le> calculateFuzzyScore ascii_toLowerCase ascii_isSpace t q"
proof -
  have t: "t \<noteq> []" using assms(3,1) by (rule includes_str_nonempty)
  have w: "words_of ascii_isSpace (ascii_toLowerCase q) = []"
    using assms(2) by (simp add: words_of_def ascii_toLowerCase_spaces split_ws_all_space)
  have "includes_str (ascii_toLowerCase t) (ascii_toLowerCase q)"
    unfolding ascii_toLowerCase_def using assms(3) by (rule includes_str_map)
  with t assms(1) have "0.8 \<le> calculateFuzzyScore ascii_toLowerCase ascii_isSpace t q"
    by (rule calculateFuzzyScore_substring)
  with t w show ?thesis by simp
qed

theorem calculateFuzzyScore_whitespace_query_witness:
  "'' '' \<noteq> [] \<and> list_all ascii_isSpace '' '' \<and> includes_str ''a b'' '' '' \<and>
   words_of ascii_isSpace (ascii_toLowerCase '' '') = [] \<and>
   0.8 \<le> calculateFuzzyScore ascii_toLowerCase ascii_isSpace ''a b'' '' ''"
proof -
  have s: "list_all ascii_isSpace '' ''" by (simp add: ascii_isSpace_def)
  have i: "includes_str ''a b'' '' ''" by simp
  show ?thesis
    using s i calculateFuzzyScore_whitespace_query [of "'' ''" "''a b''"] by simp
qed

section \<open>Properties of the reranker\<close>

lemma foldl_default_apply:
  "foldl (\<lambda>m doc. m(docId doc \<mapsto> v)) m0 documents k =
     (if k \<in> docId ` set documents then Some v else m0 k)"
  by (induction documents arbitrary: m0) auto

lemma defaultScores_apply:
  "defaultScores documents k = (if k \<in> docId ` set documents then Some (Num 0.5) else None)"
  unfolding defaultScores_def by (rule foldl_default_apply)

lemma rerankResults_try_fails:
  "completion_fails sp jp completion \<Longrightarrow> isl (rerankResults_try sp jp tn completion)"
  by (induction sp jp completion rule: completion_fails.induct)
     (auto simp: rerankResults_try_def split: sum.splits)

lemma rerankResults_on_failure:
  "completion_fails sp jp completion \<Longrightarrow>
   rerankResults sp jp tn completion documents = Inr (defaultScores documents)"
  using rerankResults_try_fails [of sp jp completion tn]
  by (auto simp: rerankResults_def split: sum.splits)

text \<open>Whatever the provider answers, \<open>rerankResults\<close> returns a map: it never throws.\<close>

lemma rerankResults_returns: "\<exists>m. rerankResults sp jp tn completion documents = Inr m"
  by (simp add: rerankResults_def split: sum.splits)

lemma clean_malformed:
  "cleanAndParseJson ascii_isSpace example_JSON_parse ''```json {bad,} ```'' = Inl SyntaxError"
  by (simp add: cleanAndParseJson_def trim_def extract_object_def ascii_isSpace_def
        example_JSON_parse_def strip_fences.simps)

lemma clean_example0:
  "cleanAndParseJson ascii_isSpace example_JSON_parse ''{\"a\": 0}'' = Inr (JObject [(''a'', JNumber 0)])"
  by (simp add: cleanAndParseJson_def trim_def extract_object_def ascii_isSpace_def
        example_JSON_parse_def strip_fences.simps)

lemma clean_example1:
  "cleanAndParseJson ascii_isSpace example_JSON_parse ''{\"a\": 1}'' = Inr (JObject [(''a'', JNumber 1)])"
  by (simp add: cleanAndParseJson_def trim_def extract_object_def ascii_isSpace_def
        example_JSON_parse_def strip_fences.simps)

lemma rerank_example0:
  "rerankResults ascii_isSpace example_JSON_parse example_toNumber (Choices [Some ''{\"a\": 0}'']) docs
     = Inr [''a'' \<mapsto> Num 0]"
  by (simp add: rerankResults_def rerankResults_try_def clean_example0 set_score_def)

lemma rerank_example1:
  "rerankResults ascii_isSpace example_JSON_parse example_toNumber (Choices [Some ''{\"a\": 1}'']) docs
     = Inr [''a'' \<mapsto> Num 1]"
  by (simp add: rerankResults_def rerankResults_try_def clean_example1 set_score_def)

text \<open>
  Claim C2. When the completion fails (the provider rejects the call, or its response is
  missing, empty or malformed), \<open>rerankResults\<close> does not throw: it returns the map of
  default scores, whose keys are the ids of the documents it was given and whose values
  are all exactly \<open>0.5\<close>. This holds for every list of documents, the non-empty ones among
  them; the query only enters the prompt.
\<close>

theorem rerankResults_fallback:
  assumes "completion_fails isSpace JSON_parse completion"
  shows "rerankResults isSpace JSON_parse toNumber completion documents =
           Inr (defaultScores documents) \<and>
         dom (defaultScores documents) = docId ` set documents \<and>
         (\<forall>doc \<in> set documents. defaultScores documents (docId doc) = Some (Num 0.5))"
proof -
  have "dom (defaultScores documents) = docId ` set documents"
    by (auto simp: defaultScores_apply dom_def)
  moreover have "\<forall>doc \<in> set documents. defaultScores documents (docId doc) = Some (Num 0.5)"
    by (simp add: defaultScores_apply)
  ultimately show ?thesis
    using rerankResults_on_failure [OF assms, of toNumber documents] by blast
qed

theorem rerankResults_fallback_witness:
  "completion_fails ascii_isSpace example_JSON_parse (Choices [Some ''```json {bad,} ```'']) \<and>
   rerankResults ascii_isSpace example_JSON_parse example_toNumber
       (Choices [Some ''```json {bad,} ```'']) [candA, candB] = Inr (defaultScores [candA, candB]) \<and>
   dom (defaultScores [candA, candB]) = {''a'', ''b''} \<and>
   defaultScores [candA, candB] ''a'' = Some (Num 0.5) \<and>
   defaultScores [candA, candB] ''b'' = Some (Num 0.5)"
proof -
  have f: "completion_fails ascii_isSpace example_JSON_parse (Choices [Some ''```json {bad,} ```''])"
    by (simp add: clean_malformed)
  show ?thesis
    using f rerankResults_fallback [OF f, of example_toNumber "[candA, candB]"]
    by (simp add: candA_def candB_def)
qed

text \<open>
  Claim C3, as amended. In the reranking block of the search, a failure of the completion
  is absorbed by \<open>rerankResults\<close>, which returns its default map; the block then attaches
  the rerank score \<open>0.5\<close> to every candidate. The \<open>catch\<close> branch of the block, which
  would leave the candidates without a rerank score, is not reached on such a failure.
\<close>

theorem applyRerank_on_failure:
  assumes "completion_fails isSpace JSON_parse completion"
  shows "map rerankScore
           (applyRerank True (rerankResults isSpace JSON_parse toNumber completion out) out) =
         map (\<lambda>doc. Some (Num 0.5)) out"
proof -
  have "or_else (defaultScores out k) (Num 0.5) = Num 0.5" for k
    by (simp add: defaultScores_apply)
  then show ?thesis
    by (cases out) (simp_all add: applyRerank_def rerankResults_on_failure [OF assms])
qed

theorem applyRerank_on_failure_witness:
  "completion_fails ascii_isSpace example_JSON_parse (Choices [Some []]) \<and>
   map rerankScore
     (applyRerank True
        (rerankResults ascii_isSpace example_JSON_parse example_toNumber (Choices [Some []])
           [candA, candB])
        [candA, candB]) =
   [Some (Num 0.5), Some (Num 0.5)]"
proof -
  have f: "completion_fails ascii_isSpace example_JSON_parse (Choices [Some []])" by simp
  show ?thesis
    using f applyRerank_on_failure [OF f, of example_toNumber "[candA, candB]"] by simp
qed

text \<open>
  The claim C3 as it is written fails when the provider rejects the call: the only
  candidate comes out of the reranking block with the rerank score \<open>0.5\<close>, not without one.
\<close>

theorem applyRerank_failure_counterexample:
  "rerankScore candA = None \<and>
   map rerankScore
     (applyRerank True
        (rerankResults ascii_isSpace example_JSON_parse example_toNumber Rejected [candA])
        [candA]) =
   [Some (Num 0.5)]"
  by (simp add: applyRerank_def rerankResults_def rerankResults_try_def defaultScores_def candA_def)

text \<open>
  Claim C4 at a failing input. The completion \<open>{"a": 0}\<close> is a successful reranking that
  scores the candidate \<open>a\<close> with \<open>0\<close>: the returned map holds \<open>0\<close> for it, and the
  reranking block attaches \<open>0.5\<close>, since \<open>rerankScores.get(doc.docId) || 0.5\<close> takes a
  score of \<open>0\<close> for a missing one.
\<close>

theorem applyRerank_zero_score:
  "rerankResults ascii_isSpace example_JSON_parse example_toNumber
       (Choices [Some ''{\"a\": 0}'']) [candA] = Inr [''a'' \<mapsto> Num 0] \<and>
   map rerankScore (applyRerank True (Inr [''a'' \<mapsto> Num 0]) [candA]) = [Some (Num 0.5)]"
  by (simp add: rerank_example0 applyRerank_def candA_def)


section \<open>Properties of the score fuser\<close>

lemma accumulate_skip:
  "scores sk = None \<or> weights wk = None \<Longrightarrow> accumulate scores weights sk wk acc = acc"
  by (auto simp: accumulate_def split: option.splits)

lemma accumulate_removed:
  "accumulate (scores(sk := None)) (weights(wk := None)) sk wk acc = acc"
  by (simp add: accumulate_def)

lemma accumulate_other:
  "sk' \<noteq> sk \<Longrightarrow> wk' \<noteq> wk \<Longrightarrow>
   accumulate (scores(sk := None)) (weights(wk := None)) sk' wk' acc =
   accumulate scores weights sk' wk' acc"
  by (simp add: accumulate_def)

lemma calculateWeightedScore_skip:
  assumes "(sk, wk) \<in> set signals" "scores sk = None \<or> weights wk = None"
  shows "calculateWeightedScore scores weights =
         calculateWeightedScore (scores(sk := None)) (weights(wk := None))"
proof -
  from assms have "totals scores weights = totals (scores(sk := None)) (weights(wk := None))"
    unfolding signals_def totals_def
    by (auto simp add: accumulate_skip accumulate_removed accumulate_other)
  then show ?thesis by (simp add: calculateWeightedScore_def)
qed

lemma calculateWeightedScore_zero_weight:
  "snd (totals scores weights) = Num 0 \<Longrightarrow> calculateWeightedScore scores weights = Num 0"
  by (simp add: calculateWeightedScore_def)

lemma calculateWeightedScore_empty: "calculateWeightedScore Map.empty Map.empty = Num 0"
  by (simp add: calculateWeightedScore_def totals_def accumulate_def)

text \<open>The result depends on the two objects through the five signals only.\<close>

lemma totals_cong:
  assumes "list_all (\<lambda>p. s (fst p) = s' (fst p) \<and> w (snd p) = w' (snd p)) signals"
  shows "totals s w = totals s' w'"
proof -
  from assms have
    "s ''titleVectorScore'' = s' ''titleVectorScore''" "w ''titleWeight'' = w' ''titleWeight''"
    "s ''avgChunkScore'' = s' ''avgChunkScore''" "w ''chunkWeight'' = w' ''chunkWeight''"
    "s ''fuzzyScore'' = s' ''fuzzyScore''" "w ''fuzzyWeight'' = w' ''fuzzyWeight''"
    "s ''recencyScore'' = s' ''recencyScore''" "w ''recencyWeight'' = w' ''recencyWeight''"
    "s ''urlVectorScore'' = s' ''urlVectorScore''" "w ''urlWeight'' = w' ''urlWeight''"
    by (simp_all add: signals_def)
  then show ?thesis
    unfolding totals_def by (simp only: accumulate_def)
qed

lemma calculateWeightedScore_cong:
  "list_all (\<lambda>p. s (fst p) = s' (fst p) \<and> w (snd p) = w' (snd p)) signals \<Longrightarrow>
   calculateWeightedScore s w = calculateWeightedScore s' w'"
  unfolding calculateWeightedScore_def by (simp only: totals_cong)

text \<open>
  Claim C7. \<open>calculateWeightedScore\<close> is a total function of the two objects: reading a
  property that is absent gives \<open>undefined\<close> and nothing in the function throws. A signal
  whose score or whose weight is undefined is skipped: the result is the one obtained with
  the signal removed from both objects. Whenever the accumulated weight is \<open>0\<close> the
  result is exactly \<open>0\<close>, and so it is for two empty objects.
\<close>

theorem calculateWeightedScore_skip_zero:
  "((sk, wk) \<in> set signals \<and> (scores sk = None \<or> weights wk = None) \<longrightarrow>
      calculateWeightedScore scores weights =
      calculateWeightedScore (scores(sk := None)) (weights(wk := None))) \<and>
   (snd (totals scores weights) = Num 0 \<longrightarrow> calculateWeightedScore scores weights = Num 0) \<and>
   calculateWeightedScore Map.empty Map.empty = Num 0"
  using calculateWeightedScore_skip [of sk wk scores weights]
    calculateWeightedScore_zero_weight [of scores weights] calculateWeightedScore_empty
  by blast

theorem calculateWeightedScore_skip_zero_witness:
  "(''fuzzyScore'', ''fuzzyWeight'') \<in> set signals \<and>
   [''titleWeight'' \<mapsto> Num 0] ''fuzzyWeight'' = None \<and>
   calculateWeightedScore [''titleVectorScore'' \<mapsto> Num 0.2, ''fuzzyScore'' \<mapsto> Num 0.9]
       [''titleWeight'' \<mapsto> Num 0] =
     calculateWeightedScore
       ([''titleVectorScore'' \<mapsto> Num 0.2, ''fuzzyScore'' \<mapsto> Num 0.9](''fuzzyScore'' := None))
       ([''titleWeight'' \<mapsto> Num 0](''fuzzyWeight'' := None)) \<and>
   snd (totals [''titleVectorScore'' \<mapsto> Num 0.2, ''fuzzyScore'' \<mapsto> Num 0.9]
          [''titleWeight'' \<mapsto> Num 0]) = Num 0 \<and>
   calculateWeightedScore [''titleVectorScore'' \<mapsto> Num 0.2, ''fuzzyScore'' \<mapsto> Num 0.9]
       [''titleWeight'' \<mapsto> Num 0] = Num 0"
proof -
  have m: "(''fuzzyScore'', ''fuzzyWeight'') \<in> set signals" by (simp add: signals_def)
  have n: "[''titleWeight'' \<mapsto> Num 0] ''fuzzyWeight'' = None" by simp
  have z: "snd (totals [''titleVectorScore'' \<mapsto> Num 0.2, ''fuzzyScore'' \<mapsto> Num 0.9]
                  [''titleWeight'' \<mapsto> Num 0]) = Num 0"
    by (simp add: totals_def accumulate_def)
  show ?thesis
    using m n z
      calculateWeightedScore_skip_zero [of "''fuzzyScore''" "''fuzzyWeight''"
        "[''titleVectorScore'' \<mapsto> Num 0.2, ''fuzzyScore'' \<mapsto> Num 0.9]"
        "[''titleWeight'' \<mapsto> Num 0]"]
    by blast
qed

section \<open>Properties of the search\<close>

lemma weigh_eq:
  "weigh weights doc =
   doc\<lparr>weightedScore := Some (calculateWeightedScore (scores_of doc) weights)\<rparr>"
proof (cases "rerankScore doc")
  case None
  then show ?thesis by (simp add: weigh_def Let_def)
next
  case (Some r)
  have "calculateWeightedScore ((scores_of doc)(''rerankScore'' := rerankScore doc))
          (weights(''rerankWeight'' \<mapsto> Num 2)) =
        calculateWeightedScore (scores_of doc) weights"
    by (rule calculateWeightedScore_cong) (simp add: signals_def)
  with Some show ?thesis by (simp add: weigh_def Let_def)
qed

lemma weigh_ignores_rerank:
  "weightedScore (weigh weights (doc\<lparr>rerankScore := r\<rparr>)) = weightedScore (weigh weights doc)"
  by (simp add: weigh_eq scores_of_def)

lemma weigh_after_applyRerank:
  "map weightedScore (map (weigh weights) (applyRerank useLlmReranking reranked out)) =
   map weightedScore (map (weigh weights) out)"
  by (simp add: applyRerank_def weigh_ignores_rerank split: sum.splits)

lemma lower_examples:
  "ascii_toLowerCase ''x'' = ''x''" "ascii_toLowerCase ''y'' = ''y''"
  "ascii_toLowerCase ''zzz'' = ''zzz''"
  by code_simp+

lemma words_examples:
  "words_of ascii_isSpace ''x'' = [''x'']" "words_of ascii_isSpace ''y'' = [''y'']"
  "words_of ascii_isSpace ''zzz'' = [''zzz'']"
  by code_simp+

lemma fuzzy_examples:
  "calculateFuzzyScore ascii_toLowerCase ascii_isSpace ''x'' ''zzz'' = 0"
  "calculateFuzzyScore ascii_toLowerCase ascii_isSpace ''y'' ''zzz'' = 0"
  by (simp_all add: calculateFuzzyScore_def lower_examples words_examples new_Set_def Set_add_def
        proximity_boost_def)

lemma recency_example: "calculateRecencyScore dp 0 (PDate (Num 0)) (Num (1 / 2)) = Num 1"
  by (simp add: calculateRecencyScore_def)

lemma processDoc_hitA:
  "processDoc ascii_toLowerCase ascii_isSpace dp 0 ''zzz'' (Num (1 / 2)) (avgChunkScores_of []) hitA
     = candA"
  by (simp add: processDoc_def hitA_def candA_def fuzzy_examples recency_example
        avgChunkScores_of_def chunkScores_of_def Let_def)

lemma processDoc_hitB:
  "processDoc ascii_toLowerCase ascii_isSpace dp 0 ''zzz'' (Num (1 / 2)) (avgChunkScores_of []) hitB
     = candB"
  by (simp add: processDoc_def hitB_def candB_def fuzzy_examples recency_example
        avgChunkScores_of_def chunkScores_of_def Let_def)

lemma weighted_candA_default:
  "calculateWeightedScore (scores_of (candA\<lparr>rerankScore := r\<rparr>)) defaultWeights = Num (2 / 9)"
  by (simp add: scores_of_def candA_def defaultWeights_def calculateWeightedScore_def totals_def
        accumulate_def)

text \<open>
  Claim C1 at a failing input. The rerank score and the rerank weight \<open>2.0\<close> are put into
  the two objects handed to \<open>calculateWeightedScore\<close>, which reads neither: for any
  weights and any outcome of the reranking block, the weighted scores are those computed
  without reranking. For the hit \<open>a\<close> with the default weights and the completion
  \<open>{"a": 1}\<close>, the rerank score is \<open>1\<close> and the weighted score is
  \<open>(0 + 0 + 0 + 1) / 4.5 = 2/9\<close>, with reranking and without; a weighted mean with the
  rerank score at weight \<open>2.0\<close> would be \<open>(1 + 2) / 6.5 = 6/13\<close>.
\<close>

theorem rerank_weight_without_effect:
  "map weightedScore (map (weigh weights) (applyRerank useLlmReranking reranked out)) =
     map weightedScore (map (weigh weights) out) \<and>
   map (\<lambda>c. (rerankScore c, weightedScore c))
     (documentSearch ascii_toLowerCase ascii_isSpace Date_parse 0 example_JSON_parse example_toNumber
        ''zzz'' (Num (1 / 2)) True defaultWeights [hitA] [] (Choices [Some ''{\"a\": 1}''])) =
     [(Some (Num 1), Some (Num (2 / 9)))] \<and>
   map (\<lambda>c. (rerankScore c, weightedScore c))
     (documentSearch ascii_toLowerCase ascii_isSpace Date_parse 0 example_JSON_parse example_toNumber
        ''zzz'' (Num (1 / 2)) False defaultWeights [hitA] [] (Choices [Some ''{\"a\": 1}''])) =
     [(None, Some (Num (2 / 9)))]"
proof -
  have r: "applyRerank True (Inr [''a'' \<mapsto> Num 1]) [candA] = [candA\<lparr>rerankScore := Some (Num 1)\<rparr>]"
    by (simp add: applyRerank_def candA_def)
  have w: "weigh defaultWeights (candA\<lparr>rerankScore := r\<rparr>) =
           candA\<lparr>rerankScore := r, weightedScore := Some (Num (2 / 9))\<rparr>" for r
    by (simp add: weigh_eq weighted_candA_default)
  have w0: "weigh defaultWeights candA = candA\<lparr>weightedScore := Some (Num (2 / 9))\<rparr>"
    using w [of "rerankScore candA"] by simp
  have on: "map (\<lambda>c. (rerankScore c, weightedScore c))
     (documentSearch ascii_toLowerCase ascii_isSpace Date_parse 0 example_JSON_parse example_toNumber
        ''zzz'' (Num (1 / 2)) True defaultWeights [hitA] [] (Choices [Some ''{\"a\": 1}''])) =
     [(Some (Num 1), Some (Num (2 / 9)))]"
    by (simp add: documentSearch_def processDoc_hitA rerank_example1 r w Array_sort_def)
  have off: "map (\<lambda>c. (rerankScore c, weightedScore c))
     (documentSearch ascii_toLowerCase ascii_isSpace Date_parse 0 example_JSON_parse example_toNumber
        ''zzz'' (Num (1 / 2)) False defaultWeights [hitA] [] (Choices [Some ''{\"a\": 1}''])) =
     [(None, Some (Num (2 / 9)))]"
    by (simp add: documentSearch_def processDoc_hitA applyRerank_def w0 Array_sort_def)
       (simp add: candA_def)
  from weigh_after_applyRerank on off show ?thesis by blast
qed


lemma set_sort_insert: "set (sort_insert cmp x ys) = insert x (set ys)"
  by (induction ys) auto

lemma set_Array_sort: "set (Array_sort cmp xs) = set xs"
  unfolding Array_sort_def by (induction xs) (simp_all add: set_sort_insert)

text \<open>
  With a comparison function \<open>key b - key a\<close> on keys that are numbers, the model of
  \<open>Array.prototype.sort\<close> is the stable sort of the library, by descending key.
\<close>

lemma cmp_positive_diff:
  "key x \<noteq> NaN \<Longrightarrow> key y \<noteq> NaN \<Longrightarrow>
   cmp_positive (key y - key x) = (\<not> - num_of (key x) \<le> - num_of (key y))"
  by (cases "key x"; cases "key y") auto

lemma sort_insert_insort_key:
  "key x \<noteq> NaN \<Longrightarrow> list_all (\<lambda>c. key c \<noteq> NaN) ys \<Longrightarrow>
   sort_insert (\<lambda>a b. key b - key a) x ys = insort_key (\<lambda>c. - num_of (key c)) x ys"
  by (induction ys) (simp_all add: cmp_positive_diff)

lemma Array_sort_sort_key:
  "list_all (\<lambda>c. key c \<noteq> NaN) xs \<Longrightarrow>
   Array_sort (\<lambda>a b. key b - key a) xs = sort_key (\<lambda>c. - num_of (key c)) xs"
proof (induction xs)
  case Nil
  then show ?case by (simp add: Array_sort_def)
next
  case (Cons x xs)
  then have "Array_sort (\<lambda>a b. key b - key a) xs = sort_key (\<lambda>c. - num_of (key c)) xs" by simp
  moreover have "list_all (\<lambda>c. key c \<noteq> NaN) (sort_key (\<lambda>c. - num_of (key c)) xs)"
    using Cons.prems by (simp add: list_all_iff)
  ultimately show ?case
    using Cons.prems by (simp add: Array_sort_def sort_insert_insort_key sort_key_def)
qed

lemma Array_sort_byScore:
  assumes "list_all (\<lambda>c. sortKey c \<noteq> NaN) xs"
  shows "Array_sort byScore xs = sort_key (\<lambda>c. - num_of (sortKey c)) xs"
proof -
  have b: "byScore = (\<lambda>a b. sortKey b - sortKey a)" by (intro ext) (simp add: byScore_def)
  show ?thesis unfolding b using assms by (rule Array_sort_sort_key)
qed

lemma overall_ok_processDoc:
  "overall_ok (processDoc lc sp dp now q bias avgChunkScores doc)"
  by (simp add: overall_ok_def processDoc_def Let_def)

lemma overall_ok_rerank: "overall_ok c \<Longrightarrow> overall_ok (c\<lparr>rerankScore := r\<rparr>)"
  by (simp add: overall_ok_def split: option.splits)

lemma overall_ok_weigh: "overall_ok c \<Longrightarrow> overall_ok (weigh weights c)"
  by (simp add: overall_ok_def weigh_eq split: option.splits)

lemma overall_ok_applyRerank:
  "list_all overall_ok out \<Longrightarrow> list_all overall_ok (applyRerank useLlmReranking reranked out)"
  by (auto simp: applyRerank_def list_all_iff overall_ok_rerank split: sum.splits)

lemma overall_ok_documentSearch:
  "list_all overall_ok
     (documentSearch lc sp dp now jp tn q bias useLlmReranking weights docs chunks completion)"
proof -
  let ?out = "map (processDoc lc sp dp now q bias (avgChunkScores_of chunks)) docs"
  have "list_all overall_ok ?out"
    by (simp add: list_all_iff overall_ok_processDoc)
  then have "list_all overall_ok
      (applyRerank useLlmReranking (rerankResults sp jp tn completion ?out) ?out)"
    by (rule overall_ok_applyRerank)
  then have "list_all overall_ok
      (map (weigh weights)
         (applyRerank useLlmReranking (rerankResults sp jp tn completion ?out) ?out))"
    by (simp add: list_all_iff overall_ok_weigh)
  then show ?thesis
    by (simp add: documentSearch_def Let_def list_all_iff set_Array_sort)
qed

lemma u_overall_ok_urlSearch:
  "list_all u_overall_ok (urlSearch lc sp fv weights titleHits urlHits)"
  by (simp add: urlSearch_def list_all_iff set_Array_sort u_overall_ok_def processUrl_def Let_def)

lemma documentSearch_example_reranked:
  "documentSearch ascii_toLowerCase ascii_isSpace dp 0 example_JSON_parse example_toNumber
     ''zzz'' (Num (1 / 2)) True defaultWeights [hitA] [] (Choices [Some ''{\"a\": 1}'']) =
   [candA\<lparr>rerankScore := Some (Num 1), weightedScore := Some (Num (2 / 9))\<rparr>]"
proof -
  have r: "applyRerank True (Inr [''a'' \<mapsto> Num 1]) [candA] = [candA\<lparr>rerankScore := Some (Num 1)\<rparr>]"
    by (simp add: applyRerank_def candA_def)
  have w: "weigh defaultWeights (candA\<lparr>rerankScore := Some (Num 1)\<rparr>) =
           candA\<lparr>rerankScore := Some (Num 1), weightedScore := Some (Num (2 / 9))\<rparr>"
    by (simp add: weigh_eq weighted_candA_default)
  show ?thesis
    by (simp add: documentSearch_def processDoc_hitA rerank_example1 r w Array_sort_def)
qed

lemma urlSearch_example:
  "urlSearch ascii_toLowerCase ascii_isSpace ''zzz'' defaultUrlWeights [hitU] [] = [candU]"
  by (simp add: urlSearch_def processUrl_def hitU_def candU_def defaultUrlWeights_def
        urlScores_of_def fuzzy_examples calculateWeightedScore_def totals_def accumulate_def
        Array_sort_def Let_def)

text \<open>
  Claim C8. Every candidate that document search returns has a recency score \<open>r\<close> and
  the overall score \<open>(titleVectorScore + avgChunkScore + 1.5 * fuzzyScore + r) / 4\<close>;
  every candidate that URL search returns has the overall score
  \<open>(titleVectorScore + urlVectorScore + 1.5 * fuzzyScore) / 3.5\<close>. The divisors are
  constants: a document without chunk hits, or a URL without a hit of the URL query,
  enters the sum with the score \<open>0\<close> and the divisor stays.
\<close>

theorem overallScore_fixed_divisor:
  "(c \<in> set (documentSearch lc sp dp now jp tn q bias useLlmReranking weights docs chunks completion)
      \<longrightarrow> (\<exists>r. recencyScore c = Some r \<and>
             overallScore c =
               (titleVectorScore c + avgChunkScore c + fuzzyScore c * Num 1.5 + r) / Num 4)) \<and>
   (u \<in> set (urlSearch lc sp fv uweights titleHits urlHits)
      \<longrightarrow> u_overallScore u =
            (u_titleVectorScore u + u_urlVectorScore u + u_fuzzyScore u * Num 1.5) / Num 3.5) \<and>
   (avgChunkScores (v_doc_id doc) = None
      \<longrightarrow> avgChunkScore (processDoc lc sp dp now q bias avgChunkScores doc) = Num 0) \<and>
   (urlScores (v_url_id hit) = None
      \<longrightarrow> u_urlVectorScore (processUrl lc sp fv uweights urlScores hit) = Num 0)"
proof -
  have d: "c \<in> set (documentSearch lc sp dp now jp tn q bias useLlmReranking weights docs chunks completion)
      \<Longrightarrow> overall_ok c"
    using overall_ok_documentSearch [of lc sp dp now jp tn q bias useLlmReranking weights docs chunks completion]
    by (simp add: list_all_iff)
  have u: "u \<in> set (urlSearch lc sp fv uweights titleHits urlHits) \<Longrightarrow> u_overall_ok u"
    using u_overall_ok_urlSearch [of lc sp fv uweights titleHits urlHits]
    by (simp add: list_all_iff)
  have a: "avgChunkScores (v_doc_id doc) = None
      \<Longrightarrow> avgChunkScore (processDoc lc sp dp now q bias avgChunkScores doc) = Num 0"
    by (simp add: processDoc_def Let_def)
  have b: "urlScores (v_url_id hit) = None
      \<Longrightarrow> u_urlVectorScore (processUrl lc sp fv uweights urlScores hit) = Num 0"
    by (simp add: processUrl_def Let_def)
  from d u a b show ?thesis
    by (auto simp: overall_ok_def u_overall_ok_def split: option.splits)
qed

theorem overallScore_fixed_divisor_witness:
  "candA\<lparr>rerankScore := Some (Num 1), weightedScore := Some (Num (2 / 9))\<rparr> \<in>
     set (documentSearch ascii_toLowerCase ascii_isSpace (\<lambda>s. NaN) 0 example_JSON_parse example_toNumber
            ''zzz'' (Num (1 / 2)) True defaultWeights [hitA] [] (Choices [Some ''{\"a\": 1}''])) \<and>
   overallScore (candA\<lparr>rerankScore := Some (Num 1), weightedScore := Some (Num (2 / 9))\<rparr>) =
     (Num 0 + Num 0 + Num 0 * Num 1.5 + Num 1) / Num 4 \<and>
   candU \<in> set (urlSearch ascii_toLowerCase ascii_isSpace ''zzz'' defaultUrlWeights [hitU] []) \<and>
   u_overallScore candU = (Num (1 / 5) + Num 0 + Num 0 * Num 1.5) / Num 3.5 \<and>
   avgChunkScores_of [] (v_doc_id hitA) = None \<and>
   avgChunkScore (processDoc ascii_toLowerCase ascii_isSpace (\<lambda>s. NaN) 0 ''zzz'' (Num (1 / 2))
                    (avgChunkScores_of []) hitA) = Num 0 \<and>
   urlScores_of [] (v_url_id hitU) = None \<and>
   u_urlVectorScore (processUrl ascii_toLowerCase ascii_isSpace ''zzz'' defaultUrlWeights
                       (urlScores_of []) hitU) = Num 0"
proof -
  have m: "candA\<lparr>rerankScore := Some (Num 1), weightedScore := Some (Num (2 / 9))\<rparr> \<in>
     set (documentSearch ascii_toLowerCase ascii_isSpace (\<lambda>s. NaN) 0 example_JSON_parse example_toNumber
            ''zzz'' (Num (1 / 2)) True defaultWeights [hitA] [] (Choices [Some ''{\"a\": 1}'']))"
    by (simp add: documentSearch_example_reranked)
  have n: "candU \<in> set (urlSearch ascii_toLowerCase ascii_isSpace ''zzz'' defaultUrlWeights [hitU] [])"
    by (simp add: urlSearch_example)
  have a: "avgChunkScores_of [] (v_doc_id hitA) = None"
    by (simp add: avgChunkScores_of_def chunkScores_of_def)
  have b: "urlScores_of [] (v_url_id hitU) = None"
    by (simp add: urlScores_of_def)
  show ?thesis
    using m n a b
      overallScore_fixed_divisor [of
        "candA\<lparr>rerankScore := Some (Num 1), weightedScore := Some (Num (2 / 9))\<rparr>"
        ascii_toLowerCase ascii_isSpace "\<lambda>s. NaN" 0 example_JSON_parse example_toNumber
        "''zzz''" "Num (1 / 2)" True defaultWeights "[hitA]" "[]" "Choices [Some ''{\"a\": 1}'']"
        candU "''zzz''" defaultUrlWeights "[hitU]" "[]" "avgChunkScores_of []" hitA
        "urlScores_of []" hitU]
    by (simp add: candA_def candU_def)
qed

text \<open>
  Claim C9 at a failing input. With the weights \<open>{titleWeight: 1}\<close> the two hits get the
  weighted scores \<open>0\<close> and \<open>0.1\<close>, both defined. The comparison function reads
  \<open>weightedScore || overallScore\<close>, which replaces the weighted score \<open>0\<close> of \<open>a\<close> by
  its overall score \<open>0.25\<close>: the search returns \<open>a\<close> before \<open>b\<close>, in ascending order
  of the weighted scores.
\<close>

theorem search_order_zero_weighted:
  "map (\<lambda>c. (docId c, weightedScore c, overallScore c))
     (documentSearch ascii_toLowerCase ascii_isSpace Date_parse 0 example_JSON_parse example_toNumber
        ''zzz'' (Num (1 / 2)) False [''titleWeight'' \<mapsto> Num 1] [hitA, hitB] [] Rejected) =
   [(''a'', Some (Num 0), Num (1 / 4)), (''b'', Some (Num (1 / 10)), Num (11 / 40))]"
proof -
  have wa: "weigh [''titleWeight'' \<mapsto> Num 1] candA = candA\<lparr>weightedScore := Some (Num 0)\<rparr>"
    by (simp add: weigh_eq scores_of_def candA_def calculateWeightedScore_def totals_def
          accumulate_def)
  have wb: "weigh [''titleWeight'' \<mapsto> Num 1] candB = candB\<lparr>weightedScore := Some (Num (1 / 10))\<rparr>"
    by (simp add: weigh_eq scores_of_def candB_def calculateWeightedScore_def totals_def
          accumulate_def)
  have s: "Array_sort byScore [candA\<lparr>weightedScore := Some (Num 0)\<rparr>,
                               candB\<lparr>weightedScore := Some (Num (1 / 10))\<rparr>] =
           [candA\<lparr>weightedScore := Some (Num 0)\<rparr>, candB\<lparr>weightedScore := Some (Num (1 / 10))\<rparr>]"
    by (simp add: Array_sort_def byScore_def sortKey_def candA_def candB_def)
  show ?thesis
    by (simp add: documentSearch_def processDoc_hitA processDoc_hitB applyRerank_def wa wb s)
       (simp add: candA_def candB_def)
qed

section \<open>Properties of the recency scorer\<close>

text \<open>
  Claim C6 at failing inputs. An invalid date (one that did not parse) is an object and
  passes the guard, and the constructor of \<open>Date\<close> does not throw: with the bias \<open>0\<close>
  the score is \<open>1\<close>, with the bias \<open>0.5\<close> it is \<open>NaN\<close>, never the \<open>0.5\<close> of the
  \<open>catch\<close> branch; so it is for a string that does not parse. A date one day after
  \<open>Date.now()\<close> has the age of \<open>-1\<close> day, which the \<open>Math.min\<close> does not clamp: with the
  bias \<open>1\<close> the score is \<open>exp (5/365)\<close>, above \<open>1\<close>.
\<close>

theorem calculateRecencyScore_invalid_and_future:
  "calculateRecencyScore Date_parse now (PDate NaN) (Num 0) = Num 1 \<and>
   calculateRecencyScore Date_parse now (PDate NaN) (Num (1 / 2)) = NaN \<and>
   calculateRecencyScore (\<lambda>s. NaN) now (PString ''soon'') (Num 0) = Num 1 \<and>
   calculateRecencyScore (\<lambda>s. NaN) now (PString ''soon'') (Num (1 / 2)) = NaN \<and>
   calculateRecencyScore Date_parse now (PDate (Num (now + 86400000))) (Num 1) = Num (exp (1 / 73)) \<and>
   1 < exp (1 / 73 :: real)"
  by (simp add: calculateRecencyScore_def)


end
